theory Spec2Isabelle
  imports Complex_Main
begin

text \<open>
  A shallow embedding of \<^verbatim>\<open>src/irk.cpp\<close> of the Rehuel ODE library: the Butcher
  tableau catalogue (\<^verbatim>\<open>get_coefficients\<close>, \<^verbatim>\<open>verify_solver_coeffs\<close>), the step
  size controller (\<^verbatim>\<open>get_better_time_step\<close>) and the two lookup functions
  (\<^verbatim>\<open>method_to_name\<close>, \<^verbatim>\<open>name_to_method\<close>).

  The header \<^verbatim>\<open>irk.hpp\<close> is not among the sources. What it declares and the
  functions use is taken as a parameter: the values of the enumerators (\<open>ids\<close>), the
  initial contents of the two lookup tables (\<open>tabs\<close>) and the contents of a freshly
  declared \<^verbatim>\<open>solver_coeffs\<close> (\<open>sc0\<close>).
\<close>

section \<open>Double precision values\<close>

text \<open>
  A \<^verbatim>\<open>double\<close> is a finite number, a zero of either sign, one of the two
  infinities, or NaN: \<open>Fin 0\<close> is \<open>+0.0\<close>, \<open>NZero\<close> is \<open>-0.0\<close>, and \<open>Fin a\<close> with
  \<open>a \<noteq> 0\<close> is the number \<open>a\<close>. The operations below follow IEEE 754 and Annex F
  of the C standard on the special values: the sign of a product or quotient is the
  exclusive or of the signs, a nonzero number divided by a zero is an infinity,
  \<open>0/0\<close>, \<open>\<infinity>/\<infinity>\<close> and \<open>0 \<cdot> \<infinity>\<close> are NaN, NaN propagates, the two zeros
  compare equal, and every comparison with NaN is false.

  On finite nonzero operands the result is the exact real one. The machine rounds it
  to 53 bits, returns an infinity when it overflows and a zero or a subnormal number
  when it underflows; none of this is represented. The theorems on the controller are
  stated so that this does not change them: they evaluate the function at inputs where
  every intermediate value is a double and the arithmetic is exact, or they rest on
  the rules for the special values, or they carry a bound (on \<open>dt_old\<close>, on the
  second factor) under which rounding and underflow leave the conclusion as it is.
  The lemmas \<open>dt_new_finite\<close> and \<open>get_better_time_step_finite\<close> are statements of
  exact arithmetic.
\<close>

datatype double = Fin real | NZero | PInf | NInf | NaN

fun sign_bit :: "double \<Rightarrow> bool" where
  "sign_bit (Fin a) = (a < 0)"
| "sign_bit NZero = True"
| "sign_bit PInf = False"
| "sign_bit NInf = True"
| "sign_bit NaN = False"

fun is_zero :: "double \<Rightarrow> bool" where
  "is_zero (Fin a) = (a = 0)"
| "is_zero NZero = True"
| "is_zero x = False"

fun fin_val :: "double \<Rightarrow> real" where
  "fin_val (Fin a) = a"
| "fin_val x = 0"

definition zero_of :: "bool \<Rightarrow> double" where
  "zero_of neg = (if neg then NZero else Fin 0)"

definition inf_of :: "bool \<Rightarrow> double" where
  "inf_of neg = (if neg then NInf else PInf)"

fun ddiv :: "double \<Rightarrow> double \<Rightarrow> double" where
  "ddiv NaN y = NaN"
| "ddiv x NaN = NaN"
| "ddiv PInf PInf = NaN"
| "ddiv PInf NInf = NaN"
| "ddiv NInf PInf = NaN"
| "ddiv NInf NInf = NaN"
| "ddiv PInf y = inf_of (sign_bit y)"
| "ddiv NInf y = inf_of (\<not> sign_bit y)"
| "ddiv x PInf = zero_of (sign_bit x)"
| "ddiv x NInf = zero_of (\<not> sign_bit x)"
| "ddiv x y =
     (if is_zero y
      then (if is_zero x then NaN else inf_of (sign_bit x \<noteq> sign_bit y))
      else if is_zero x then zero_of (sign_bit x \<noteq> sign_bit y)
      else Fin (fin_val x / fin_val y))"

fun dmul :: "double \<Rightarrow> double \<Rightarrow> double" where
  "dmul NaN y = NaN"
| "dmul x NaN = NaN"
| "dmul PInf PInf = PInf"
| "dmul PInf NInf = NInf"
| "dmul NInf PInf = NInf"
| "dmul NInf NInf = PInf"
| "dmul PInf y = (if is_zero y then NaN else inf_of (sign_bit y))"
| "dmul NInf y = (if is_zero y then NaN else inf_of (\<not> sign_bit y))"
| "dmul x PInf = (if is_zero x then NaN else inf_of (sign_bit x))"
| "dmul x NInf = (if is_zero x then NaN else inf_of (\<not> sign_bit x))"
| "dmul x y =
     (if is_zero x \<or> is_zero y then zero_of (sign_bit x \<noteq> sign_bit y)
      else Fin (fin_val x * fin_val y))"

text \<open>
  \<^verbatim>\<open>pow(x, y)\<close> for an exponent \<open>y\<close> that holds an integer: both exponents of the
  controller are sums or minima of the integer orders. \<^verbatim>\<open>pow(x, 0)\<close> is 1 for
  every \<open>x\<close>, NaN included; a zero or an infinity keeps its sign under an odd
  exponent.
\<close>

fun dpow :: "double \<Rightarrow> int \<Rightarrow> double" where
  "dpow x n =
     (if n = 0 then Fin 1
      else case x of
        NaN \<Rightarrow> NaN
      | Fin a \<Rightarrow>
          (if a = 0 then (if 0 < n then Fin 0 else PInf)
           else if 0 < n then Fin (a ^ nat n)
           else Fin (1 / a ^ nat (- n)))
      | NZero \<Rightarrow>
          (if 0 < n then (if odd n then NZero else Fin 0)
           else (if odd n then NInf else PInf))
      | PInf \<Rightarrow> (if 0 < n then PInf else Fin 0)
      | NInf \<Rightarrow>
          (if 0 < n then (if odd n then NInf else PInf)
           else (if odd n then NZero else Fin 0)))"

fun dlt :: "double \<Rightarrow> double \<Rightarrow> bool" where
  "dlt NaN y = False"
| "dlt x NaN = False"
| "dlt PInf y = False"
| "dlt x NInf = False"
| "dlt NInf y = True"
| "dlt x PInf = True"
| "dlt x y = (fin_val x < fin_val y)"

fun dle :: "double \<Rightarrow> double \<Rightarrow> bool" where
  "dle NaN y = False"
| "dle x NaN = False"
| "dle NInf y = True"
| "dle x PInf = True"
| "dle PInf y = False"
| "dle x NInf = False"
| "dle x y = (fin_val x \<le> fin_val y)"

text \<open>\<^verbatim>\<open>std::min(x, y)\<close> is \<^verbatim>\<open>(y < x) ? y : x\<close>: it returns \<open>x\<close> when either is NaN.\<close>

definition std_min :: "double \<Rightarrow> double \<Rightarrow> double" where
  "std_min x y = (if dlt y x then y else x)"

section \<open>Butcher tableaus\<close>

text \<open>
  An \<^verbatim>\<open>arma::mat\<close> is the list of its rows, an \<^verbatim>\<open>arma::vec\<close> the list of its
  entries; a default constructed matrix or vector is empty. The entries of a tableau
  are finite constants, kept as real numbers. \<open>set_at i j v\<close> is the assignment
  \<^verbatim>\<open>A(i,j) = v\<close>; the source only assigns inside the matrix.
\<close>

type_synonym vec = "real list"
type_synonym mat = "real list list"

definition n_rows :: "mat \<Rightarrow> nat" where
  "n_rows M = length M"

definition n_cols :: "mat \<Rightarrow> nat" where
  "n_cols M = (if M = [] then 0 else length (M ! 0))"

definition zeros :: "nat \<Rightarrow> nat \<Rightarrow> mat" where
  "zeros r k = replicate r (replicate k 0)"

definition mat_at :: "mat \<Rightarrow> nat \<Rightarrow> nat \<Rightarrow> real" where
  "mat_at M i j = M ! i ! j"

definition set_at :: "nat \<Rightarrow> nat \<Rightarrow> real \<Rightarrow> mat \<Rightarrow> mat" where
  "set_at i j v M = M[i := (M ! i)[j := v]]"

text \<open>The fields of \<^verbatim>\<open>solver_coeffs\<close> that \<^verbatim>\<open>irk.cpp\<close> reads or writes.\<close>

record solver_coeffs =
  sc_A :: mat
  sc_b :: vec
  sc_c :: vec
  sc_b2 :: vec
  sc_order :: int
  sc_order2 :: int
  sc_FSAL :: bool
  sc_name :: string
  sc_dt :: real

definition verify_solver_coeffs :: "solver_coeffs \<Rightarrow> bool" where
  "verify_solver_coeffs sc =
     (let N = length (sc_b sc) in
      if N \<noteq> length (sc_c sc) \<or> N \<noteq> n_rows (sc_A sc) \<or> N \<noteq> n_cols (sc_A sc)
      then False else True)"

text \<open>The case labels of the switch in \<^verbatim>\<open>get_coefficients\<close>, in the order of the source.\<close>

datatype rk_method =
    EXPLICIT_EULER | RUNGE_KUTTA_4 | BOGACKI_SHAMPINE_32 | CASH_KARP_54
  | DORMAND_PRINCE_54 | FEHLBERG_54
  | IMPLICIT_EULER | IMPLICIT_MIDPOINT | LOBATTO_IIIA_21 | LOBATTO_IIIC_21
  | RADAU_IA_32 | RADAU_IIA_32 | LOBATTO_IIIA_43 | LOBATTO_IIIC_43
  | GAUSS_LEGENDRE_42 | RADAU_IA_54 | RADAU_IIA_54 | GAUSS_LEGENDRE_63
  | LOBATTO_IIIA_65 | LOBATTO_IIIC_65

definition one_third :: real where "one_third = 1 / 3"
definition one_six :: real where "one_six = 1 / 6"
definition sqrt3 :: real where "sqrt3 = sqrt 3"
definition sqrt5 :: real where "sqrt5 = sqrt 5"
definition sqrt6 :: real where "sqrt6 = sqrt 6"
definition sqrt15 :: real where "sqrt15 = sqrt 15"

text \<open>
  The body of each case of the switch, as the assignments it makes to \<open>sc\<close>. The
  cases that fill the matrix entry by entry (\<^verbatim>\<open>CASH_KARP_54\<close>,
  \<^verbatim>\<open>DORMAND_PRINCE_54\<close>, \<^verbatim>\<open>FEHLBERG_54\<close>) start from the zero matrix and make the
  assignments in the order of the source. The case \<^verbatim>\<open>FEHLBERG_54\<close> assigns no
  \<open>c\<close>.
\<close>

fun set_coeffs :: "rk_method \<Rightarrow> solver_coeffs \<Rightarrow> solver_coeffs" where
  "set_coeffs EXPLICIT_EULER sc =
     sc\<lparr>sc_A := [[0]], sc_b := [1], sc_c := [0], sc_order := 1, sc_order2 := 0\<rparr>"
| "set_coeffs RUNGE_KUTTA_4 sc =
     sc\<lparr>sc_A := [[0, 0, 0, 0],
                  [0.5, 0, 0, 0],
                  [0, 0.5, 0, 0],
                  [0, 0, 1, 0]],
        sc_b := [one_six, one_third, one_third, one_six],
        sc_c := [0, 0.5, 0.5, 1],
        sc_order := 4, sc_order2 := 0\<rparr>"
| "set_coeffs BOGACKI_SHAMPINE_32 sc =
     sc\<lparr>sc_A := [[0, 0, 0, 0],
                  [0.5, 0, 0, 0],
                  [0, 0.75, 0, 0],
                  [2/9, 1/3, 4/9, 0]],
        sc_b := [2/9, 1/3, 4/9, 0],
        sc_b2 := [7/24, 0.25, 1/3, 1/8],
        sc_c := [0, 0.5, 0.75, 1],
        sc_FSAL := True, sc_order := 3, sc_order2 := 2\<rparr>"
| "set_coeffs CASH_KARP_54 sc =
     sc\<lparr>sc_A := fold (\<lambda>(i, j, v). set_at i j v)
          [(1, 0, 1/5), (2, 0, 3/40), (3, 0, 3/10), (4, 0, - 11/54), (5, 0, 1631/55296),
           (2, 1, 9/40), (3, 1, - 9/10), (4, 1, 5/2), (5, 1, 175/512),
           (3, 2, 6/5), (4, 2, - 70/27), (5, 2, 575/13824),
           (4, 3, 35/27), (5, 3, 44275/110592),
           (5, 4, 253/4096)]
          (zeros 6 6),
        sc_b := [37/378, 0, 250/621, 125/594, 0, 512/1771],
        sc_b2 := [2825/27648, 0, 18575/48384, 13525/55296, 277/14336, 1/4],
        sc_c := [0, 0.2, 0.3, 0.6, 1, 7/8],
        sc_order := 5, sc_order2 := 4\<rparr>"
| "set_coeffs DORMAND_PRINCE_54 sc =
     sc\<lparr>sc_A := fold (\<lambda>(i, j, v). set_at i j v)
          [(1, 0, 1/5), (2, 0, 3/40), (3, 0, 44/45), (4, 0, 19372/6561),
           (5, 0, 9017/3168), (6, 0, 35/384),
           (2, 1, 9/40), (3, 1, - 56/15), (4, 1, - 25360/2187), (5, 1, - 355/33),
           (6, 1, 0),
           (3, 2, 32/9), (4, 2, 64448/6561), (5, 2, 46732/5247), (6, 2, 500/1113),
           (4, 3, - 212/729), (5, 3, 49/176), (6, 3, 125/192),
           (5, 4, - 5103/18656), (6, 4, - 2187/6784),
           (6, 5, 11/84)]
          (zeros 7 7),
        sc_c := [0, 0.2, 0.3, 0.8, 8/9, 1, 1],
        sc_b := [35/384, 0, 500/1113, 125/192, - 2187/6784, 11/84, 0],
        sc_b2 := [5179/57600, 0, 7571/16695, 393/640, - 92097/339200, 187/2100, 1/40],
        sc_order := 5, sc_order2 := 4, sc_FSAL := True\<rparr>"
| "set_coeffs FEHLBERG_54 sc =
     sc\<lparr>sc_A := fold (\<lambda>(i, j, v). set_at i j v)
          [(0, 1, 1/4), (0, 2, 3/32), (0, 3, 1932/2197), (0, 4, 439/126), (0, 5, - 8/27),
           (1, 2, 9/32), (1, 3, - 7200/2197), (1, 4, - 8), (1, 5, 2),
           (2, 3, 7296/2197), (2, 4, 3680/513), (2, 5, - 3544/2565),
           (3, 4, - 845/4104), (3, 5, 1859/4104),
           (4, 5, - 11/40)]
          (zeros 6 6),
        sc_b := [16/135, 0, 6656/12825, 28561/56430, - 9/50, 2/55],
        sc_b2 := [25/216, 0, 1408/2565, 2197/4104, - 1/5, 0],
        sc_order := 5, sc_order2 := 4\<rparr>"
| "set_coeffs IMPLICIT_EULER sc =
     sc\<lparr>sc_A := [[1]], sc_b := [1], sc_c := [1], sc_order := 1, sc_order2 := 0\<rparr>"
| "set_coeffs IMPLICIT_MIDPOINT sc =
     sc\<lparr>sc_A := [[0.5]], sc_b := [1], sc_c := [0.5], sc_order := 2, sc_order2 := 0\<rparr>"
| "set_coeffs LOBATTO_IIIA_21 sc =
     sc\<lparr>sc_A := [[0, 0],
                  [0.5, 0.5]],
        sc_b := [0.5, 0.5],
        sc_c := [0, 1],
        sc_b2 := [0.25, 0.75],
        sc_order := 2, sc_order2 := 1\<rparr>"
| "set_coeffs LOBATTO_IIIC_21 sc =
     sc\<lparr>sc_A := [[0.5, - 0.5],
                  [0.5, 0.5]],
        sc_b := [0.5, 0.5],
        sc_b2 := [1/3, 2/3],
        sc_c := [0, 1],
        sc_order := 2, sc_order2 := 1\<rparr>"
| "set_coeffs RADAU_IA_32 sc =
     sc\<lparr>sc_A := [[1/4, - 1/4],
                  [1/4, 5/12]],
        sc_c := [0, 2/3],
        sc_b := [1/4, 3/4],
        sc_order := 3, sc_order2 := 0\<rparr>"
| "set_coeffs RADAU_IIA_32 sc =
     sc\<lparr>sc_A := [[5/12, - 1/12],
                  [3/4, 1/4]],
        sc_c := [1/3, 1],
        sc_b := [3/4, 1/4],
        sc_order := 3, sc_order2 := 0\<rparr>"
| "set_coeffs LOBATTO_IIIA_43 sc =
     sc\<lparr>sc_A := [[0, 0, 0],
                  [5/24, 1/3, - 1/24],
                  [1/6, 2/3, 1/6]],
        sc_c := [0, 0.5, 1],
        sc_b := [1/6, 2/3, 1/6],
        sc_b2 := [- 0.5, 2, - 0.5],
        sc_order := 4, sc_order2 := 3, sc_FSAL := True\<rparr>"
| "set_coeffs LOBATTO_IIIC_43 sc =
     sc\<lparr>sc_A := [[1/6, - 1/3, 1/6],
                  [1/6, 5/12, - 1/12],
                  [1/6, 2/3, 1/6]],
        sc_b := [1/6, 2/3, 1/6],
        sc_b2 := [- 0.5, 2, - 0.5],
        sc_c := [0, 0.5, 1],
        sc_order := 4, sc_order2 := 3\<rparr>"
| "set_coeffs GAUSS_LEGENDRE_42 sc =
     sc\<lparr>sc_A := [[0.25, 0.25 - sqrt3/6],
                  [0.25 + sqrt3/6, 0.25]],
        sc_c := [0.5 - sqrt3/6, 0.5 + sqrt3/6],
        sc_b := [0.5, 0.5],
        sc_b2 := [0.5 + 0.5*sqrt3, 0.5 - 0.5*sqrt3],
        sc_order := 4, sc_order2 := 2\<rparr>"
| "set_coeffs RADAU_IA_54 sc =
     sc\<lparr>sc_A := [[1/9, (- 1 - sqrt6)/18, (- 1 + sqrt6)/18],
                  [1/9, (88 + 7*sqrt6)/360, (88 - 43*sqrt6)/360],
                  [1/9, (88 + 43*sqrt6)/360, (88 - 7*sqrt6)/360]],
        sc_c := [0, (6 - sqrt6)/10, (6 + sqrt6)/10],
        sc_b := [1/9, (16 + sqrt6)/36, (16 - sqrt6)/36],
        sc_order := 5, sc_order2 := 0\<rparr>"
| "set_coeffs RADAU_IIA_54 sc =
     sc\<lparr>sc_A := [[(88 - 7*sqrt6)/360, (296 - 169*sqrt6)/1800, (- 2 + 3*sqrt6)/225],
                  [(296 + 169*sqrt6)/1800, (88 + 7*sqrt6)/360, (- 2 - 3*sqrt6)/225],
                  [(16 - sqrt6)/36, (16 + sqrt6)/36, 1/9]],
        sc_c := [(4 - sqrt6)/10, (4 + sqrt6)/10, 1],
        sc_b := [(16 - sqrt6)/36, (16 + sqrt6)/36, 1/9],
        sc_order := 5, sc_order2 := 0\<rparr>"
| "set_coeffs GAUSS_LEGENDRE_63 sc =
     sc\<lparr>sc_A := [[5/36, 2/9 - sqrt15/15, 5/36 - sqrt15/30],
                  [5/36 + sqrt15/24, 2/9, 5/36 - sqrt15/24],
                  [5/36 + sqrt15/30, 2/9 + sqrt15/15, 5/36]],
        sc_b := [5/18, 4/9, 5/18],
        sc_c := [0.5 - sqrt15/10, 0.5, 0.5 + sqrt15/10],
        sc_order := 6, sc_order2 := 0\<rparr>"
| "set_coeffs LOBATTO_IIIA_65 sc =
     (let a1 = 11/120; a2 = 25/120; a3 = sqrt5/120; a4 = 1/120 in
      sc\<lparr>sc_A := [[0, 0, 0, 0],
                   [a1 + a3, a2 - a3, a2 - 13*a3, - a4 + a3],
                   [a1 - a3, a2 + 13*a3, a2 + a3, - a4 - a3],
                   [1/12, 5/12, 5/12, 1/12]],
         sc_b := [1/12, 5/12, 5/12, 1/12],
         sc_c := [0, 0.5 - sqrt5/10, 0.5 + sqrt5/10, 1],
         sc_order := 6, sc_order2 := 0\<rparr>)"
| "set_coeffs LOBATTO_IIIC_65 sc =
     (let a1 = 1/12; a2 = sqrt5/12; a3 = 0.25; a4 = 1/6; a5 = sqrt5/60 in
      sc\<lparr>sc_A := [[a1, - a2, a2, - a1],
                   [a1, a3, a4 - 7*a5, a5],
                   [a1, a4 + 7*a5, a3, - a5],
                   [a1, 5*a1, 5*a1, a1]],
         sc_b := [a1, 5*a1, 5*a1, a1],
         sc_c := [0, 0.5 - sqrt5/10, 0.5 + sqrt5/10, 1],
         sc_order := 6, sc_order2 := 0\<rparr>)"

definition all_methods :: "rk_method list" where
  "all_methods =
     [EXPLICIT_EULER, RUNGE_KUTTA_4, BOGACKI_SHAMPINE_32, CASH_KARP_54,
      DORMAND_PRINCE_54, FEHLBERG_54,
      IMPLICIT_EULER, IMPLICIT_MIDPOINT, LOBATTO_IIIA_21, LOBATTO_IIIC_21,
      RADAU_IA_32, RADAU_IIA_32, LOBATTO_IIIA_43, LOBATTO_IIIC_43,
      GAUSS_LEGENDRE_42, RADAU_IA_54, RADAU_IIA_54, GAUSS_LEGENDRE_63,
      LOBATTO_IIIA_65, LOBATTO_IIIC_65]"

section \<open>Name and identifier lookup\<close>

text \<open>
  The two process-wide tables \<^verbatim>\<open>rk_method_to_string\<close> and
  \<^verbatim>\<open>rk_string_to_method\<close>, taken to be \<^verbatim>\<open>std::map\<close> objects (an index operator
  that takes a \<^verbatim>\<open>std::string\<close> exists only on the associative containers). Both
  functions index them with \<^verbatim>\<open>operator[]\<close>, which inserts a value-initialised entry
  (the empty string, the integer 0) for a key that is absent and returns it. The
  functions therefore take the tables and return them.
\<close>

record tables =
  rk_method_to_string :: "int \<rightharpoonup> string"
  rk_string_to_method :: "string \<rightharpoonup> int"

definition method_to_name :: "tables \<Rightarrow> int \<Rightarrow> string \<times> tables" where
  "method_to_name tabs method =
     (case rk_method_to_string tabs method of
        Some s \<Rightarrow> (s, tabs)
      | None \<Rightarrow>
          ([], tabs\<lparr>rk_method_to_string := (rk_method_to_string tabs)(method \<mapsto> [])\<rparr>))"

definition name_to_method :: "tables \<Rightarrow> string \<Rightarrow> int \<times> tables" where
  "name_to_method tabs name =
     (case rk_string_to_method tabs name of
        Some m \<Rightarrow> (m, tabs)
      | None \<Rightarrow>
          (0, tabs\<lparr>rk_string_to_method := (rk_string_to_method tabs)(name \<mapsto> 0)\<rparr>))"

text \<open>
  Modelled from the spec: the initial contents of the two tables, which \<^verbatim>\<open>irk.hpp\<close>
  (not among the sources) declares. The spec calls them a closed bidirectional mapping
  between a string identifier and the internal identifier: both tables are built from
  one catalogue of pairs (identifier, name).
\<close>

definition init_tables :: "(int \<times> string) list \<Rightarrow> tables" where
  "init_tables cat =
     \<lparr>rk_method_to_string = map_of cat,
      rk_string_to_method = map_of (map (\<lambda>(m, s). (s, m)) cat)\<rparr>"

section \<open>Coefficient lookup\<close>

text \<open>
  Every write to \<^verbatim>\<open>std::cerr\<close> is recorded as an event, in order:
  \<open>Setting_coeffs nm\<close> for the line that announces the method \<open>nm\<close>,
  \<open>Not_supported n\<close> for the line of the default case, and \<open>Mismatch i nm\<close> for the
  warning that row \<open>i\<close> of \<open>A\<close> and \<open>c\<close> disagree.
\<close>

datatype log_event =
    Setting_coeffs string
  | Not_supported int
  | Mismatch nat string

text \<open>
  The switch on \<^verbatim>\<open>method\<close>: the case whose enumerator has this value, or the
  default. \<open>ids\<close> gives the value of each enumerator.
\<close>

definition switch_case :: "(rk_method \<Rightarrow> int) \<Rightarrow> int \<Rightarrow> rk_method option" where
  "switch_case ids method = find (\<lambda>m. ids m = method) all_methods"

text \<open>
  The check after the switch: for every \<open>i\<close> below \<^verbatim>\<open>sc.c.size()\<close>, the sum of
  \<^verbatim>\<open>A(i,j)\<close> over \<open>j\<close> below \<^verbatim>\<open>sc.c.size()\<close> is compared with \<^verbatim>\<open>c(i)\<close>, and a
  warning is written when they differ by more than \<open>1e-5\<close>.
\<close>

definition row_sum :: "solver_coeffs \<Rightarrow> nat \<Rightarrow> real" where
  "row_sum sc i =
     fold (\<lambda>j si. si + mat_at (sc_A sc) i j) [0..<length (sc_c sc)] 0"

definition check_row ::
  "int \<Rightarrow> solver_coeffs \<Rightarrow> nat \<Rightarrow> log_event list \<times> tables \<Rightarrow> log_event list \<times> tables" where
  "check_row method sc i st =
     (let ci = sc_c sc ! i; si = row_sum sc i in
      if \<bar>si - ci\<bar> > 1 / 100000
      then (let (nm, tabs') = method_to_name (snd st) method
            in (fst st @ [Mismatch i nm], tabs'))
      else st)"

text \<open>
  \<^verbatim>\<open>get_coefficients\<close> returns the tableau, what it wrote to \<^verbatim>\<open>std::cerr\<close>, and
  the tables. \<open>sc0\<close> is the freshly declared \<^verbatim>\<open>solver_coeffs sc\<close>: its matrix and
  vectors are empty, its other members hold whatever the declaration gives them.
\<close>

definition get_coefficients ::
  "(rk_method \<Rightarrow> int) \<Rightarrow> solver_coeffs \<Rightarrow> tables \<Rightarrow> int
     \<Rightarrow> solver_coeffs \<times> log_event list \<times> tables" where
  "get_coefficients ids sc0 tabs method =
     (let sc = sc0\<lparr>sc_A := [], sc_b := [], sc_c := [], sc_b2 := []\<rparr>;
          sc = sc\<lparr>sc_FSAL := False\<rparr>;
          (nm, tabs) = method_to_name tabs method;
          sc = sc\<lparr>sc_name := nm\<rparr>;
          log = [Setting_coeffs nm];
          (sc, log) =
             (case switch_case ids method of
                None \<Rightarrow> (sc, log @ [Not_supported method])
              | Some m \<Rightarrow> (set_coeffs m sc, log));
          (log, tabs) = fold (check_row method sc) [0..<length (sc_c sc)] (log, tabs)
      in (sc\<lparr>sc_dt := 0.05\<rparr>, log, tabs))"

section \<open>Step size controller\<close>

text \<open>
  \<open>dt_new\<close> is the local variable of that name in \<^verbatim>\<open>get_better_time_step\<close>. The
  arguments \<^verbatim>\<open>newton_iters\<close> and \<^verbatim>\<open>opts\<close> are not used by the function.
\<close>

definition dt_new :: "double \<Rightarrow> double \<Rightarrow> double \<Rightarrow> double \<Rightarrow> solver_coeffs \<Rightarrow> double" where
  "dt_new dt_old err old_err tol sc =
     (let alpha = sc_order sc + sc_order2 sc;
          min_order = min (sc_order sc) (sc_order2 sc);
          beta = min_order;
          frac1 = ddiv tol err;
          frac2 = ddiv old_err tol
      in dmul (dmul dt_old (dpow frac1 alpha)) (dpow frac2 beta))"

definition get_better_time_step ::
  "double \<Rightarrow> double \<Rightarrow> double \<Rightarrow> double \<Rightarrow> int \<Rightarrow> 'opts \<Rightarrow> solver_coeffs \<Rightarrow> double
     \<Rightarrow> double" where
  "get_better_time_step dt_old err old_err tol newton_iters opts sc max_dt =
     std_min (dt_new dt_old err old_err tol sc) max_dt"

section \<open>The properties stated by the specification\<close>

text \<open>
  The step size of the specification, in its words:
  \<open>dt_old \<cdot> (tol/err)\<^sup>\<alpha> \<cdot> (err_prev/tol)\<^sup>\<beta>\<close> clamped to \<open>max_dt\<close>, with
  \<open>\<alpha> = 1/(order+order2)\<close> and \<open>\<beta> = min(order,order2)/(order+order2)\<close>.
\<close>

definition pi_step_spec :: "real \<Rightarrow> real \<Rightarrow> real \<Rightarrow> real \<Rightarrow> int \<Rightarrow> int \<Rightarrow> real \<Rightarrow> real" where
  "pi_step_spec dt_old err err_prev tol ord ord2 max_dt =
     (let alpha = 1 / real_of_int (ord + ord2);
          beta = real_of_int (min ord ord2) / real_of_int (ord + ord2)
      in min (dt_old * (tol / err) powr alpha * (err_prev / tol) powr beta) max_dt)"

text \<open>
  The row sum invariant of the specification: every row \<open>i\<close> of \<open>A\<close> has an entry
  \<open>c[i]\<close>, and the sum of the row differs from it by at most \<open>1e-5\<close>.
\<close>

definition row_sums_consistent :: "solver_coeffs \<Rightarrow> bool" where
  "row_sums_consistent sc =
     list_all (\<lambda>i. i < length (sc_c sc) \<and>
                    \<bar>sum_list (sc_A sc ! i) - sc_c sc ! i\<bar> \<le> 1 / 100000)
       [0..<n_rows (sc_A sc)]"

section \<open>Example inputs\<close>

text \<open>
  A numbering of the enumerators, a catalogue of three methods and a fresh
  \<^verbatim>\<open>solver_coeffs\<close>, used only to instantiate the theorems below at concrete inputs.
  The theorems hold for every numbering, catalogue and fresh value.
\<close>

fun example_ids :: "rk_method \<Rightarrow> int" where
  "example_ids EXPLICIT_EULER = 1"
| "example_ids RUNGE_KUTTA_4 = 2"
| "example_ids BOGACKI_SHAMPINE_32 = 3"
| "example_ids CASH_KARP_54 = 4"
| "example_ids DORMAND_PRINCE_54 = 5"
| "example_ids FEHLBERG_54 = 6"
| "example_ids IMPLICIT_EULER = 7"
| "example_ids IMPLICIT_MIDPOINT = 8"
| "example_ids LOBATTO_IIIA_21 = 9"
| "example_ids LOBATTO_IIIC_21 = 10"
| "example_ids RADAU_IA_32 = 11"
| "example_ids RADAU_IIA_32 = 12"
| "example_ids LOBATTO_IIIA_43 = 13"
| "example_ids LOBATTO_IIIC_43 = 14"
| "example_ids GAUSS_LEGENDRE_42 = 15"
| "example_ids RADAU_IA_54 = 16"
| "example_ids RADAU_IIA_54 = 17"
| "example_ids GAUSS_LEGENDRE_63 = 18"
| "example_ids LOBATTO_IIIA_65 = 19"
| "example_ids LOBATTO_IIIC_65 = 20"

definition example_catalogue :: "(int \<times> string) list" where
  "example_catalogue =
     [(7, ''IMPLICIT_EULER''), (12, ''RADAU_IIA_32''), (17, ''RADAU_IIA_54'')]"

definition example_sc0 :: solver_coeffs where
  "example_sc0 =
     \<lparr>sc_A = [], sc_b = [], sc_c = [], sc_b2 = [], sc_order = 0, sc_order2 = 0,
      sc_FSAL = True, sc_name = [], sc_dt = 0\<rparr>"


section \<open>Facts about the model\<close>

lemma switch_case_known: "inj ids \<Longrightarrow> switch_case ids (ids m) = Some m"
proof -
  assume "inj ids"
  then have eq: "(\<lambda>x. ids x = ids m) = (\<lambda>x. x = m)"
    by (auto dest: injD)
  show ?thesis
    unfolding switch_case_def eq by (cases m) (simp_all add: all_methods_def)
qed

lemma switch_case_unknown: "\<forall>m. ids m \<noteq> method \<Longrightarrow> switch_case ids method = None"
  by (simp add: switch_case_def find_None_iff)

lemma inj_example_ids: "inj example_ids"
proof (rule injI)
  fix x y
  assume "example_ids x = example_ids y"
  then show "x = y" by (cases x; cases y; simp)
qed

text \<open>For a recognised identifier the tableau is the one the case body assigns.\<close>

lemma get_coefficients_known:
  "inj ids \<Longrightarrow>
   fst (get_coefficients ids sc0 tabs (ids m)) =
     (set_coeffs m (sc0\<lparr>sc_A := [], sc_b := [], sc_c := [], sc_b2 := [], sc_FSAL := False,
        sc_name := fst (method_to_name tabs (ids m))\<rparr>))\<lparr>sc_dt := 0.05\<rparr>"
  by (simp add: get_coefficients_def switch_case_known Let_def case_prod_beta)

text \<open>
  Every case but \<^verbatim>\<open>FEHLBERG_54\<close> assigns a square matrix and vectors of its size, with
  consistent row sums.
\<close>

lemma verify_solver_coeffs_set_coeffs:
  "m \<noteq> FEHLBERG_54 \<Longrightarrow> verify_solver_coeffs (set_coeffs m sc)"
  by (cases m)
    (simp_all add: verify_solver_coeffs_def n_rows_def n_cols_def zeros_def set_at_def Let_def)

lemma row_sums_rational:
  "m \<in> {EXPLICIT_EULER, RUNGE_KUTTA_4, BOGACKI_SHAMPINE_32, IMPLICIT_EULER,
         IMPLICIT_MIDPOINT, LOBATTO_IIIA_21, LOBATTO_IIIC_21, RADAU_IA_32, RADAU_IIA_32,
         LOBATTO_IIIA_43, LOBATTO_IIIC_43} \<Longrightarrow>
   row_sums_consistent (set_coeffs m sc)"
  by (auto simp add: row_sums_consistent_def n_rows_def one_third_def one_six_def)

lemma row_sums_irrational:
  "m \<in> {GAUSS_LEGENDRE_42, RADAU_IA_54, RADAU_IIA_54, GAUSS_LEGENDRE_63,
         LOBATTO_IIIA_65, LOBATTO_IIIC_65} \<Longrightarrow>
   row_sums_consistent (set_coeffs m sc)"
  by (auto simp add: row_sums_consistent_def n_rows_def Let_def
        add_divide_distrib diff_divide_distrib)

lemma row_sums_cash_karp: "row_sums_consistent (set_coeffs CASH_KARP_54 sc)"
  by (simp add: row_sums_consistent_def n_rows_def zeros_def set_at_def eval_nat_numeral)

lemma row_sums_dormand_prince: "row_sums_consistent (set_coeffs DORMAND_PRINCE_54 sc)"
  by (simp add: row_sums_consistent_def n_rows_def zeros_def set_at_def eval_nat_numeral)

lemma row_sums_consistent_set_coeffs:
  "m \<noteq> FEHLBERG_54 \<Longrightarrow> row_sums_consistent (set_coeffs m sc)"
  using row_sums_rational [of m sc] row_sums_irrational [of m sc]
    row_sums_cash_karp [of sc] row_sums_dormand_prince [of sc]
  by (cases m) simp_all

lemma verify_solver_coeffs_known:
  assumes "inj ids" and "m \<noteq> FEHLBERG_54"
  shows "verify_solver_coeffs (fst (get_coefficients ids sc0 tabs (ids m)))"
proof -
  have "verify_solver_coeffs (set_coeffs m sc) = verify_solver_coeffs (set_coeffs m sc\<lparr>sc_dt := v\<rparr>)"
    for sc v
    by (simp add: verify_solver_coeffs_def)
  then show ?thesis
    using assms by (simp add: get_coefficients_known verify_solver_coeffs_set_coeffs)
qed

lemma row_sums_consistent_known:
  assumes "inj ids" and "m \<noteq> FEHLBERG_54"
  shows "row_sums_consistent (fst (get_coefficients ids sc0 tabs (ids m)))"
proof -
  have "row_sums_consistent (set_coeffs m sc) = row_sums_consistent (set_coeffs m sc\<lparr>sc_dt := v\<rparr>)"
    for sc v
    by (simp add: row_sums_consistent_def)
  then show ?thesis
    using assms by (simp add: get_coefficients_known row_sums_consistent_set_coeffs)
qed

text \<open>The matrices that are filled entry by entry, written out.\<close>

lemma cash_karp_A:
  "sc_A (set_coeffs CASH_KARP_54 sc) =
     [[0, 0, 0, 0, 0, 0],
      [1/5, 0, 0, 0, 0, 0],
      [3/40, 9/40, 0, 0, 0, 0],
      [3/10, - 9/10, 6/5, 0, 0, 0],
      [- 11/54, 5/2, - 70/27, 35/27, 0, 0],
      [1631/55296, 175/512, 575/13824, 44275/110592, 253/4096, 0]]"
  by (simp add: zeros_def set_at_def eval_nat_numeral)

lemma dormand_prince_A:
  "sc_A (set_coeffs DORMAND_PRINCE_54 sc) =
     [[0, 0, 0, 0, 0, 0, 0],
      [1/5, 0, 0, 0, 0, 0, 0],
      [3/40, 9/40, 0, 0, 0, 0, 0],
      [44/45, - 56/15, 32/9, 0, 0, 0, 0],
      [19372/6561, - 25360/2187, 64448/6561, - 212/729, 0, 0, 0],
      [9017/3168, - 355/33, 46732/5247, 49/176, - 5103/18656, 0, 0],
      [35/384, 0, 500/1113, 125/192, - 2187/6784, 11/84, 0]]"
  by (simp add: zeros_def set_at_def eval_nat_numeral)

lemma fehlberg_A:
  "sc_A (set_coeffs FEHLBERG_54 sc) =
     [[0, 1/4, 3/32, 1932/2197, 439/126, - 8/27],
      [0, 0, 9/32, - 7200/2197, - 8, 2],
      [0, 0, 0, 7296/2197, 3680/513, - 3544/2565],
      [0, 0, 0, 0, - 845/4104, 1859/4104],
      [0, 0, 0, 0, 0, - 11/40],
      [0, 0, 0, 0, 0, 0]]"
  by (simp add: zeros_def set_at_def eval_nat_numeral)

text \<open>
  The check after the switch writes no warning for any case: for \<^verbatim>\<open>FEHLBERG_54\<close>
  because it runs over the indices of the empty \<open>c\<close>.
\<close>

lemma check_rows_cash_karp:
  "fold (check_row n (set_coeffs CASH_KARP_54 sc))
     [0..<length (sc_c (set_coeffs CASH_KARP_54 sc))] st = st"
proof -
  have c: "sc_c (set_coeffs CASH_KARP_54 sc) = [0, 0.2, 0.3, 0.6, 1, 7/8]"
    by simp
  show ?thesis
    by (simp add: check_row_def row_sum_def mat_at_def Let_def cash_karp_A c
          del: set_coeffs.simps)
qed

lemma check_rows_dormand_prince:
  "fold (check_row n (set_coeffs DORMAND_PRINCE_54 sc))
     [0..<length (sc_c (set_coeffs DORMAND_PRINCE_54 sc))] st = st"
proof -
  have c: "sc_c (set_coeffs DORMAND_PRINCE_54 sc) = [0, 0.2, 0.3, 0.8, 8/9, 1, 1]"
    by simp
  show ?thesis
    by (simp add: check_row_def row_sum_def mat_at_def Let_def dormand_prince_A c
          del: set_coeffs.simps)
qed

lemma check_rows_rational:
  "m \<in> {EXPLICIT_EULER, RUNGE_KUTTA_4, BOGACKI_SHAMPINE_32, IMPLICIT_EULER,
         IMPLICIT_MIDPOINT, LOBATTO_IIIA_21, LOBATTO_IIIC_21, RADAU_IA_32, RADAU_IIA_32,
         LOBATTO_IIIA_43, LOBATTO_IIIC_43} \<Longrightarrow>
   fold (check_row n (set_coeffs m sc)) [0..<length (sc_c (set_coeffs m sc))] st = st"
  by (auto simp add: check_row_def row_sum_def mat_at_def one_third_def one_six_def Let_def)

lemma check_rows_irrational:
  "m \<in> {GAUSS_LEGENDRE_42, RADAU_IA_54, RADAU_IIA_54, GAUSS_LEGENDRE_63,
         LOBATTO_IIIA_65, LOBATTO_IIIC_65} \<Longrightarrow>
   fold (check_row n (set_coeffs m sc)) [0..<length (sc_c (set_coeffs m sc))] st = st"
  by (auto simp add: check_row_def row_sum_def mat_at_def Let_def
        add_divide_distrib diff_divide_distrib)

lemma check_rows_silent:
  assumes "sc_c sc = []"
  shows "fold (check_row n (set_coeffs m sc)) [0..<length (sc_c (set_coeffs m sc))] st = st"
proof (cases "m = FEHLBERG_54")
  case True
  then show ?thesis using assms by simp
next
  case False
  then show ?thesis
    using check_rows_rational [of m n sc st] check_rows_irrational [of m n sc st]
      check_rows_cash_karp [of n sc st] check_rows_dormand_prince [of n sc st]
    by (cases m) (simp_all del: set_coeffs.simps)
qed

lemma get_coefficients_silent:
  "inj ids \<Longrightarrow>
   snd (get_coefficients ids sc0 tabs (ids m)) =
     ([Setting_coeffs (fst (method_to_name tabs (ids m)))],
      snd (method_to_name tabs (ids m)))"
  by (simp add: get_coefficients_def switch_case_known Let_def case_prod_beta
        check_rows_silent del: set_coeffs.simps)

text \<open>The tables built from a catalogue without repeated identifiers or names.\<close>

lemma init_tables_method:
  "distinct (map fst cat) \<Longrightarrow> (m, s) \<in> set cat \<Longrightarrow>
   rk_method_to_string (init_tables cat) m = Some s"
  by (simp add: init_tables_def)

lemma init_tables_name:
  assumes "distinct (map snd cat)" and "(m, s) \<in> set cat"
  shows "rk_string_to_method (init_tables cat) s = Some m"
proof -
  have "map fst (map (\<lambda>(m, s). (s, m)) cat) = map snd cat"
    by (simp add: case_prod_beta comp_def)
  then have "distinct (map fst (map (\<lambda>(m, s). (s, m)) cat))"
    using assms(1) by (simp only:)
  moreover have "(s, m) \<in> set (map (\<lambda>(m, s). (s, m)) cat)"
    using assms(2) by force
  ultimately have "map_of (map (\<lambda>(m, s). (s, m)) cat) s = Some m"
    by (rule map_of_is_SomeI)
  then show ?thesis by (simp add: init_tables_def)
qed

text \<open>A name that is not a key of the table is answered with 0.\<close>

lemma name_to_method_unknown:
  "rk_string_to_method tabs name = None \<Longrightarrow> fst (name_to_method tabs name) = 0"
  by (simp add: name_to_method_def)

lemma method_to_name_unknown:
  "rk_method_to_string tabs method = None \<Longrightarrow>
   method_to_name tabs method =
     ([], tabs\<lparr>rk_method_to_string := (rk_method_to_string tabs)(method \<mapsto> [])\<rparr>)"
  by (simp add: method_to_name_def)

text \<open>
  What the controller computes on finite positive errors and tolerance, in exact
  arithmetic: its exponents are \<open>order + order2\<close> and \<open>min order order2\<close>.
\<close>

lemma ddiv_finite: "b \<noteq> 0 \<Longrightarrow> a \<noteq> 0 \<Longrightarrow> ddiv (Fin a) (Fin b) = Fin (a / b)"
  by simp

lemma dpow_finite: "0 < x \<Longrightarrow> 0 \<le> k \<Longrightarrow> dpow (Fin x) k = Fin (x ^ nat k)"
  by (cases "k = 0") simp_all

lemma dmul_finite: "0 < p \<Longrightarrow> dmul (Fin a) (Fin p) = Fin (a * p)"
  by (simp add: zero_of_def)

lemma dt_new_finite:
  assumes "0 < e" and "0 < t" and "0 < ol" and "0 \<le> min (sc_order sc) (sc_order2 sc)"
  shows "dt_new (Fin d) (Fin e) (Fin ol) (Fin t) sc =
     Fin (d * (t / e) ^ nat (sc_order sc + sc_order2 sc)
            * (ol / t) ^ nat (min (sc_order sc) (sc_order2 sc)))"
proof -
  have k1: "0 \<le> sc_order sc + sc_order2 sc"
    using assms(4) by simp
  have x1: "0 < t / e" and x2: "0 < ol / t"
    using assms(1,2,3) by simp_all
  have q1: "ddiv (Fin t) (Fin e) = Fin (t / e)"
    using assms(1,2) by (intro ddiv_finite) simp_all
  have q2: "ddiv (Fin ol) (Fin t) = Fin (ol / t)"
    using assms(2,3) by (intro ddiv_finite) simp_all
  have f1: "0 < (t / e) ^ nat (sc_order sc + sc_order2 sc)"
    using x1 by simp
  have f2: "0 < (ol / t) ^ nat (min (sc_order sc) (sc_order2 sc))"
    using x2 by simp
  show ?thesis
    by (simp only: dt_new_def Let_def q1 q2 dpow_finite [OF x1 k1]
          dpow_finite [OF x2 assms(4)] dmul_finite [OF f1] dmul_finite [OF f2])
qed

lemma get_better_time_step_finite:
  assumes "0 < e" and "0 < t" and "0 < ol" and "0 \<le> min (sc_order sc) (sc_order2 sc)"
  shows "get_better_time_step (Fin d) (Fin e) (Fin ol) (Fin t) n opts sc (Fin mx) =
     Fin (min (d * (t / e) ^ nat (sc_order sc + sc_order2 sc)
                 * (ol / t) ^ nat (min (sc_order sc) (sc_order2 sc))) mx)"
  unfolding get_better_time_step_def dt_new_finite [OF assms] std_min_def
  by (simp add: min_def)

text \<open>
  A zero error: \<open>tol/err\<close> is \<open>+\<infinity>\<close> for \<open>err = +0.0\<close>, and the product is
  \<open>+\<infinity>\<close> as long as the second factor, whatever it is, is greater than 0. No
  finite arithmetic is involved. With \<open>min(order,order2) = 0\<close> the second factor is
  1 for every \<open>old_err\<close>. For \<open>err = -0.0\<close> the quotient is \<open>-\<infinity>\<close>.
\<close>

lemma dt_new_zero_err:
  assumes "0 < t" and "0 < d" and "0 < sc_order sc + sc_order2 sc"
    and "dlt (Fin 0) (dpow (ddiv old_err (Fin t)) (min (sc_order sc) (sc_order2 sc)))"
  shows "dt_new (Fin d) (Fin 0) old_err (Fin t) sc = PInf"
proof -
  define p2 where "p2 = dpow (ddiv old_err (Fin t)) (min (sc_order sc) (sc_order2 sc))"
  have q: "ddiv (Fin t) (Fin 0) = PInf"
    using \<open>0 < t\<close> by (simp add: inf_of_def)
  have p1: "dpow PInf (sc_order sc + sc_order2 sc) = PInf"
    using assms(3) by simp
  have m1: "dmul (Fin d) PInf = PInf"
    using \<open>0 < d\<close> by (simp add: inf_of_def)
  have "dlt (Fin 0) p2"
    using assms(4) by (simp only: p2_def)
  then have m2: "dmul PInf p2 = PInf"
    by (cases p2) (simp_all add: inf_of_def)
  have "dt_new (Fin d) (Fin 0) old_err (Fin t) sc = dmul (dmul (Fin d) PInf) p2"
    by (simp only: dt_new_def Let_def q p1 p2_def)
  then show ?thesis
    by (simp only: m1 m2)
qed

lemma dt_new_zero_err_no_embedded:
  assumes "0 < t" and "0 < d" and "0 < sc_order sc + sc_order2 sc"
    and "min (sc_order sc) (sc_order2 sc) = 0"
  shows "dt_new (Fin d) (Fin 0) old_err (Fin t) sc = PInf"
  using assms(1,2,3) by (rule dt_new_zero_err) (simp add: assms(4))

lemma dt_new_negative_zero_err:
  "dt_new (Fin 1) NZero (Fin 1) (Fin 1) (set_coeffs EXPLICIT_EULER sc) = NInf"
  by (simp add: dt_new_def zero_of_def inf_of_def)

lemma sixteenth_powr_quarter: "(1 / 16 :: real) powr (1 / 4) = 1 / 2"
proof -
  have "(1 / 16 :: real) = (1 / 2) powr 4"
    by (simp add: power_divide)
  then have "(1 / 16 :: real) powr (1 / 4) = ((1 / 2) powr 4) powr (1 / 4)"
    by (rule arg_cong)
  also have "\<dots> = (1 / 2) powr (4 * (1 / 4))"
    by (rule powr_powr)
  finally show ?thesis by simp
qed


section \<open>The step size controller\<close>

text \<open>
  C1. The specification gives the controller the exponents \<open>1/(order+order2)\<close> and
  \<open>min(order,order2)/(order+order2)\<close>. The function raises the two quotients to
  \<open>order+order2\<close> and \<open>min(order,order2)\<close> themselves. With the tableau of the
  classical Runge-Kutta method (order 4, no embedded method), \<open>dt_old = 1\<close>,
  \<open>err = 16\<close>, \<open>old_err = 1\<close>, \<open>tol = 1\<close> and \<open>max_dt = 10\<close> it returns
  \<open>(1/16)\<^sup>4 = 1/65536\<close>, where the step size of the specification is
  \<open>(1/16)\<^sup>1\<^sup>/\<^sup>4 = 1/2\<close>.
\<close>

theorem get_better_time_step_exponents:
  "get_better_time_step (Fin 1) (Fin 16) (Fin 1) (Fin 1) n opts
       (set_coeffs RUNGE_KUTTA_4 sc) (Fin 10) = Fin (1 / 65536)
   \<and> pi_step_spec 1 16 1 1 (sc_order (set_coeffs RUNGE_KUTTA_4 sc))
       (sc_order2 (set_coeffs RUNGE_KUTTA_4 sc)) 10 = 1 / 2"
  by (simp add: get_better_time_step_def dt_new_def std_min_def pi_step_spec_def
        sixteenth_powr_quarter power_divide zero_of_def inf_of_def)

text \<open>
  C3, as stated, fails: the function has no case for \<open>err = 0\<close> and divides by it.
  When the previous error is 0 as well, \<open>tol/err\<close> is \<open>+\<infinity>\<close>, \<open>old_err/tol\<close> is
  0, and their product is NaN, which \<^verbatim>\<open>std::min\<close> returns: the result is not bounded
  by \<open>max_dt\<close>.
\<close>

theorem zero_err_counterexample:
  "get_better_time_step (Fin 1) (Fin 0) (Fin 0) (Fin 1) (0::int) ()
       (set_coeffs BOGACKI_SHAMPINE_32 example_sc0) (Fin 2) = NaN
   \<and> \<not> dle (get_better_time_step (Fin 1) (Fin 0) (Fin 0) (Fin 1) (0::int) ()
       (set_coeffs BOGACKI_SHAMPINE_32 example_sc0) (Fin 2)) (Fin 2)"
  by (simp add: get_better_time_step_def dt_new_def std_min_def zero_of_def inf_of_def)

text \<open>
  C3, amended: when \<open>err\<close> is \<open>+0.0\<close>, \<open>tol\<close> and \<open>dt_old\<close> are finite and
  positive, \<open>old_err\<close> is finite and not negative with
  \<open>(old_err/tol)^min(order,order2)\<close> at least \<open>2^-1022\<close>, the smallest normal double
  (it is 1 when \<open>min(order,order2) = 0\<close>, whatever \<open>old_err\<close> is),
  \<open>order + order2\<close> is positive and \<open>max_dt\<close> is not NaN, the division \<open>tol/err\<close>
  gives \<open>+\<infinity>\<close> and the function returns exactly \<open>max_dt\<close>.

  The bound on the second factor keeps it from underflowing to zero on the machine,
  where \<open>\<infinity> \<cdot> 0\<close> would be NaN; beyond the second factor being greater than 0 the
  proof uses the rules for infinities only (\<open>dt_new_zero_err\<close>).
\<close>

theorem zero_err_returns_max_dt:
  assumes "0 < t" and "0 < d" and "0 \<le> ol"
    and "1 / 2 ^ 1022 \<le> (ol / t) ^ nat (min (sc_order sc) (sc_order2 sc))"
    and "0 < sc_order sc + sc_order2 sc"
    and "0 \<le> min (sc_order sc) (sc_order2 sc)"
    and "max_dt \<noteq> NaN"
  shows "ddiv (Fin t) (Fin 0) = PInf
    \<and> get_better_time_step (Fin d) (Fin 0) (Fin ol) (Fin t) n opts sc max_dt = max_dt"
proof -
  define be where "be = min (sc_order sc) (sc_order2 sc)"
  have "(0::real) < 1 / 2 ^ 1022"
    by simp
  then have pos: "0 < (ol / t) ^ nat be"
    using assms(4) unfolding be_def by (rule less_le_trans)
  have p2: "dlt (Fin 0) (dpow (ddiv (Fin ol) (Fin t)) be)"
  proof (cases "be = 0")
    case True
    then show ?thesis by simp
  next
    case False
    moreover have "0 \<le> be"
      using assms(6) by (simp only: be_def)
    ultimately have "0 < nat be"
      by simp
    then have "ol / t \<noteq> 0"
      using pos by (auto simp add: zero_power)
    then have "ol \<noteq> 0"
      by auto
    then have x: "0 < ol / t"
      using assms(1,3) by simp
    have "ddiv (Fin ol) (Fin t) = Fin (ol / t)"
      using \<open>ol \<noteq> 0\<close> assms(1) by (intro ddiv_finite) simp_all
    moreover have "dpow (Fin (ol / t)) be = Fin ((ol / t) ^ nat be)"
      using x assms(6) unfolding be_def by (rule dpow_finite)
    ultimately show ?thesis
      using pos by simp
  qed
  have q: "ddiv (Fin t) (Fin 0) = PInf"
    using \<open>0 < t\<close> by (simp add: inf_of_def)
  have dn: "dt_new (Fin d) (Fin 0) (Fin ol) (Fin t) sc = PInf"
    using assms(1,2,5) p2 unfolding be_def by (rule dt_new_zero_err)
  have "std_min PInf max_dt = max_dt"
    using \<open>max_dt \<noteq> NaN\<close> by (cases max_dt) (simp_all add: std_min_def)
  then have "get_better_time_step (Fin d) (Fin 0) (Fin ol) (Fin t) n opts sc max_dt = max_dt"
    by (simp only: get_better_time_step_def dn)
  with q show ?thesis by (simp only: simp_thms)
qed

theorem zero_err_returns_max_dt_witness:
  "get_better_time_step (Fin 1) (Fin 0) (Fin 1) (Fin 1) (0::int) ()
       (set_coeffs BOGACKI_SHAMPINE_32 example_sc0) (Fin 2) = Fin 2"
proof -
  have "ddiv (Fin 1) (Fin 0) = PInf
    \<and> get_better_time_step (Fin 1) (Fin 0) (Fin 1) (Fin 1) (0::int) ()
        (set_coeffs BOGACKI_SHAMPINE_32 example_sc0) (Fin 2) = Fin 2"
    by (rule zero_err_returns_max_dt) simp_all
  then show ?thesis by simp
qed

text \<open>
  C4, as stated, fails: the factor \<open>(old_err/tol)\<^sup>\<beta>\<close> can outweigh the factor
  \<open>(tol/err)\<^sup>\<alpha>\<close>. With the Bogacki-Shampine tableau (orders 3 and 2),
  \<open>dt_old = 1\<close>, \<open>err = 2\<close>, \<open>old_err = 8\<close>, \<open>tol = 1\<close> and \<open>max_dt = 4\<close> the
  rejected step 1 is answered with \<open>(1/2)\<^sup>5 \<cdot> 8\<^sup>2 = 2\<close>.
\<close>

theorem rejected_step_counterexample:
  "get_better_time_step (Fin 1) (Fin 2) (Fin 8) (Fin 1) (0::int) ()
       (set_coeffs BOGACKI_SHAMPINE_32 example_sc0) (Fin 4) = Fin 2
   \<and> \<not> dlt (get_better_time_step (Fin 1) (Fin 2) (Fin 8) (Fin 1) (0::int) ()
       (set_coeffs BOGACKI_SHAMPINE_32 example_sc0) (Fin 4)) (Fin 1)"
  by (simp add: get_better_time_step_def dt_new_def std_min_def power_divide zero_of_def
        inf_of_def)

text \<open>
  C4, amended: for a rejected step (\<open>err > tol > 0\<close>) with \<open>dt_old\<close> above the
  smallest normal double \<open>2^-1022\<close>, whose previous error is positive and at most
  \<open>tol\<close>, or whose tableau has \<open>min(order,order2) = 0\<close>, with \<open>order + order2 > 0\<close>
  and \<open>min(order,order2) \<ge> 0\<close>, the returned step size is strictly smaller than
  \<open>dt_old\<close>, whatever \<open>max_dt\<close> is.

  The proof is in exact arithmetic, where the bound on \<open>dt_old\<close> is not needed. It
  is a hypothesis for the machine: there both factors are at most 1 and the first is
  at most \<open>1 - 2^-53\<close>, so the product, rounded to nearest, is below \<open>dt_old\<close> when
  \<open>dt_old\<close> exceeds \<open>2^-1022\<close>, while at \<open>2^-1022\<close> and below it can round back to
  \<open>dt_old\<close>.
\<close>

theorem rejected_step_shrinks:
  assumes "0 < t" and "t < e" and "1 / 2 ^ 1022 < d" and "0 < ol"
    and "ol \<le> t \<or> min (sc_order sc) (sc_order2 sc) = 0"
    and "0 < sc_order sc + sc_order2 sc"
    and "0 \<le> min (sc_order sc) (sc_order2 sc)"
  shows "dlt (get_better_time_step (Fin d) (Fin e) (Fin ol) (Fin t) n opts sc max_dt) (Fin d)"
proof -
  define al where "al = nat (sc_order sc + sc_order2 sc)"
  define be where "be = nat (min (sc_order sc) (sc_order2 sc))"
  have "(0::real) < 1 / 2 ^ 1022"
    by simp
  then have dpos: "0 < d"
    using assms(3) by (rule less_trans)
  have epos: "0 < e"
    using assms(1,2) by simp
  have al: "0 < al"
    using assms(6) by (simp add: al_def)
  have f1: "0 < t / e" "t / e < 1"
    using assms(1,2) by simp_all
  have p1: "0 < (t / e) ^ al" "(t / e) ^ al < 1"
    using f1 al by (simp_all add: power_less_one_iff)
  have p2: "(ol / t) ^ be \<le> 1"
  proof (cases "be = 0")
    case True
    then show ?thesis by simp
  next
    case False
    then have "ol \<le> t"
      using assms(5,7) by (auto simp: be_def)
    then have "ol / t \<le> 1"
      using assms(1) by simp
    moreover have "0 \<le> ol / t"
      using assms(1,4) by simp
    ultimately show ?thesis by (simp add: power_le_one)
  qed
  have "(t / e) ^ al * (ol / t) ^ be \<le> (t / e) ^ al * 1"
    using p1 p2 by (intro mult_left_mono) simp_all
  also have "\<dots> < 1"
    using p1 by simp
  finally have "(t / e) ^ al * (ol / t) ^ be < 1" .
  then have "d * ((t / e) ^ al * (ol / t) ^ be) < d * 1"
    using dpos by (rule mult_strict_left_mono)
  then have lt: "d * (t / e) ^ al * (ol / t) ^ be < d"
    by (simp add: mult.assoc)
  define P where "P = d * (t / e) ^ al * (ol / t) ^ be"
  have dn: "dt_new (Fin d) (Fin e) (Fin ol) (Fin t) sc = Fin P"
    unfolding al_def be_def P_def using epos assms(1,4,7) by (rule dt_new_finite)
  have "P < d"
    using lt by (simp only: P_def)
  then have "dlt (std_min (Fin P) max_dt) (Fin d)"
    using dpos by (cases max_dt) (auto simp add: std_min_def)
  then show ?thesis
    by (simp only: get_better_time_step_def dn)
qed

theorem rejected_step_shrinks_witness:
  "dlt (get_better_time_step (Fin 1) (Fin 2) (Fin (1 / 2)) (Fin 1) (0::int) ()
       (set_coeffs BOGACKI_SHAMPINE_32 example_sc0) (Fin 4)) (Fin 1)"
  by (rule rejected_step_shrinks) simp_all

text \<open>
  C5, as stated, fails: \<^verbatim>\<open>std::min\<close> returns its first argument when that is NaN.
  With \<open>err = 0\<close> and \<open>tol = 0\<close> the quotient \<open>tol/err\<close> is NaN, and so is the
  result, which is not at most \<open>max_dt\<close>.
\<close>

theorem clamp_counterexample:
  "\<not> dle (get_better_time_step (Fin 1) (Fin 0) (Fin 1) (Fin 0) (0::int) ()
       (set_coeffs RUNGE_KUTTA_4 example_sc0) (Fin 2)) (Fin 2)"
  by (simp add: get_better_time_step_def dt_new_def std_min_def zero_of_def inf_of_def)

text \<open>
  C5, amended: whenever neither the product \<open>dt_new\<close> nor \<open>max_dt\<close> is NaN, the
  returned value is at most \<open>max_dt\<close>.
\<close>

theorem clamp_max_dt:
  assumes "dt_new dt_old err old_err tol sc \<noteq> NaN" and "max_dt \<noteq> NaN"
  shows "dle (get_better_time_step dt_old err old_err tol n opts sc max_dt) max_dt"
  using assms
  by (cases "dt_new dt_old err old_err tol sc"; cases max_dt)
    (simp_all add: get_better_time_step_def std_min_def)

theorem clamp_max_dt_witness:
  "dt_new (Fin 1) (Fin (1 / 2)) (Fin 1) (Fin 1) (set_coeffs RUNGE_KUTTA_4 example_sc0) = Fin 16
   \<and> dle (get_better_time_step (Fin 1) (Fin (1 / 2)) (Fin 1) (Fin 1) (0::int) ()
       (set_coeffs RUNGE_KUTTA_4 example_sc0) (Fin 2)) (Fin 2)"
proof -
  have v: "dt_new (Fin 1) (Fin (1 / 2)) (Fin 1) (Fin 1) (set_coeffs RUNGE_KUTTA_4 example_sc0)
      = Fin 16"
    by (simp add: dt_new_def zero_of_def inf_of_def)
  have nn: "dt_new (Fin 1) (Fin (1 / 2)) (Fin 1) (Fin 1)
      (set_coeffs RUNGE_KUTTA_4 example_sc0) \<noteq> NaN"
    unfolding v by simp
  have "dle (get_better_time_step (Fin 1) (Fin (1 / 2)) (Fin 1) (Fin 1) (0::int) ()
       (set_coeffs RUNGE_KUTTA_4 example_sc0) (Fin 2)) (Fin 2)"
    by (rule clamp_max_dt [OF nn]) simp
  with v show ?thesis by (simp only: simp_thms)
qed


section \<open>The tableau catalogue\<close>

text \<open>
  C2. The case \<^verbatim>\<open>FEHLBERG_54\<close> of the switch never assigns \<open>c\<close> and writes the
  entries of \<open>A\<close> above the diagonal. The returned tableau has six rows and an empty
  \<open>c\<close>, so no row sum agrees with an entry of \<open>c\<close>; the check after the switch runs
  over the indices of \<open>c\<close>, finds none, and writes no warning.
\<close>

theorem fehlberg_row_sums:
  assumes "inj ids"
  shows "sc_c (fst (get_coefficients ids sc0 tabs (ids FEHLBERG_54))) = []
    \<and> n_rows (sc_A (fst (get_coefficients ids sc0 tabs (ids FEHLBERG_54)))) = 6
    \<and> \<not> row_sums_consistent (fst (get_coefficients ids sc0 tabs (ids FEHLBERG_54)))
    \<and> fst (snd (get_coefficients ids sc0 tabs (ids FEHLBERG_54))) =
        [Setting_coeffs (fst (method_to_name tabs (ids FEHLBERG_54)))]"
proof -
  have "sc_c (fst (get_coefficients ids sc0 tabs (ids FEHLBERG_54))) = []"
    by (simp add: get_coefficients_known [OF assms])
  moreover have "n_rows (sc_A (fst (get_coefficients ids sc0 tabs (ids FEHLBERG_54)))) = 6"
    by (simp add: get_coefficients_known [OF assms] n_rows_def zeros_def set_at_def)
  moreover have "\<not> row_sums_consistent (fst (get_coefficients ids sc0 tabs (ids FEHLBERG_54)))"
    by (auto simp add: get_coefficients_known [OF assms] row_sums_consistent_def n_rows_def
          zeros_def set_at_def list_all_iff intro!: exI [of _ "0::nat"])
  moreover have "fst (snd (get_coefficients ids sc0 tabs (ids FEHLBERG_54))) =
      [Setting_coeffs (fst (method_to_name tabs (ids FEHLBERG_54)))]"
    by (simp add: get_coefficients_def switch_case_known [OF assms] Let_def case_prod_beta)
  ultimately show ?thesis by (simp only: simp_thms)
qed

theorem fehlberg_row_sums_witness:
  "\<not> row_sums_consistent
       (fst (get_coefficients example_ids example_sc0 (init_tables example_catalogue)
          (example_ids FEHLBERG_54)))"
  using fehlberg_row_sums [OF inj_example_ids, of example_sc0 "init_tables example_catalogue"]
  by (simp only: simp_thms)

text \<open>
  C10. For \<^verbatim>\<open>FEHLBERG_54\<close> the returned tableau has six entries in \<open>b\<close> and none in
  \<open>c\<close>: \<^verbatim>\<open>verify_solver_coeffs\<close> returns false on it.
\<close>

theorem fehlberg_fails_verify:
  assumes "inj ids"
  shows "\<not> verify_solver_coeffs (fst (get_coefficients ids sc0 tabs (ids FEHLBERG_54)))"
  by (simp add: get_coefficients_known [OF assms] verify_solver_coeffs_def)

theorem fehlberg_fails_verify_witness:
  "\<not> verify_solver_coeffs
       (fst (get_coefficients example_ids example_sc0 (init_tables example_catalogue)
          (example_ids FEHLBERG_54)))"
  using fehlberg_fails_verify [OF inj_example_ids, of example_sc0 "init_tables example_catalogue"]
  by (simp only: simp_thms)

text \<open>
  C6. For an identifier that is the value of no case label, \<^verbatim>\<open>get_coefficients\<close>
  returns the fresh tableau with empty \<open>A\<close>, \<open>b\<close>, \<open>c\<close> and \<open>b2\<close>, \<open>FSAL\<close> false, the
  looked up name and \<open>dt = 0.05\<close>, and writes the line that the method is not
  supported after the line that announces the method.
\<close>

theorem get_coefficients_unsupported:
  assumes "\<forall>m. ids m \<noteq> method"
  shows "get_coefficients ids sc0 tabs method =
     (sc0\<lparr>sc_A := [], sc_b := [], sc_c := [], sc_b2 := [], sc_FSAL := False,
          sc_name := fst (method_to_name tabs method), sc_dt := 0.05\<rparr>,
      [Setting_coeffs (fst (method_to_name tabs method)), Not_supported method],
      snd (method_to_name tabs method))"
  using assms
  by (simp add: get_coefficients_def switch_case_unknown Let_def case_prod_beta)

theorem get_coefficients_unsupported_witness:
  "get_coefficients example_ids example_sc0 (init_tables example_catalogue) 0 =
     (example_sc0\<lparr>sc_A := [], sc_b := [], sc_c := [], sc_b2 := [], sc_FSAL := False,
          sc_name := [], sc_dt := 0.05\<rparr>,
      [Setting_coeffs [], Not_supported 0],
      (init_tables example_catalogue)
        \<lparr>rk_method_to_string :=
           (rk_method_to_string (init_tables example_catalogue))(0 \<mapsto> [])\<rparr>)"
proof -
  have h: "\<forall>m. example_ids m \<noteq> 0"
  proof
    fix m
    show "example_ids m \<noteq> 0" by (cases m) simp_all
  qed
  have n: "method_to_name (init_tables example_catalogue) 0 =
      ([], (init_tables example_catalogue)
             \<lparr>rk_method_to_string :=
                (rk_method_to_string (init_tables example_catalogue))(0 \<mapsto> [])\<rparr>)"
    by (simp add: method_to_name_def init_tables_def example_catalogue_def)
  show ?thesis
    using get_coefficients_unsupported [OF h, of example_sc0 "init_tables example_catalogue"]
    by (simp add: n)
qed

section \<open>The lookup tables\<close>

text \<open>
  C8. On tables built from a catalogue in which no identifier and no name occurs
  twice, looking up the name of a catalogued identifier and then the identifier of
  that name gives the identifier back, looking up the identifier of a catalogued name
  and then its name gives the name back, and both leave the tables as they were.
\<close>

theorem name_method_round_trip:
  assumes "distinct (map fst cat)" and "distinct (map snd cat)" and "(m, s) \<in> set cat"
  shows "(let (s', t1) = method_to_name (init_tables cat) m in name_to_method t1 s')
      = (m, init_tables cat)
    \<and> (let (m', t1) = name_to_method (init_tables cat) s in method_to_name t1 m')
      = (s, init_tables cat)"
  using init_tables_method [OF assms(1,3)] init_tables_name [OF assms(2,3)]
  by (simp add: method_to_name_def name_to_method_def)

theorem name_method_round_trip_witness:
  "(let (s', t1) = method_to_name (init_tables example_catalogue) 12
    in name_to_method t1 s') = (12, init_tables example_catalogue)
   \<and> (let (m', t1) = name_to_method (init_tables example_catalogue) ''RADAU_IIA_32''
      in method_to_name t1 m') = (''RADAU_IIA_32'', init_tables example_catalogue)"
proof -
  have h1: "distinct (map fst example_catalogue)"
    by (simp add: example_catalogue_def)
  have h2: "distinct (map snd example_catalogue)"
    by (simp add: example_catalogue_def)
  have h3: "(12, ''RADAU_IIA_32'') \<in> set example_catalogue"
    by (simp add: example_catalogue_def)
  show ?thesis
    by (rule name_method_round_trip [OF h1 h2 h3])
qed

text \<open>
  C9. \<^verbatim>\<open>name_to_method\<close> called with a name that is not a key of
  \<^verbatim>\<open>rk_string_to_method\<close> adds the name to the table, with the value 0: the tables
  after the call differ from the tables before it.
\<close>

theorem name_to_method_inserts:
  assumes "rk_string_to_method tabs name = None"
  shows "snd (name_to_method tabs name) =
      tabs\<lparr>rk_string_to_method := (rk_string_to_method tabs)(name \<mapsto> 0)\<rparr>
    \<and> snd (name_to_method tabs name) \<noteq> tabs"
proof -
  have ins: "snd (name_to_method tabs name) =
      tabs\<lparr>rk_string_to_method := (rk_string_to_method tabs)(name \<mapsto> 0)\<rparr>"
    using assms by (simp add: name_to_method_def)
  then have "rk_string_to_method (snd (name_to_method tabs name)) name = Some 0"
    by simp
  then have "snd (name_to_method tabs name) \<noteq> tabs"
    using assms by auto
  with ins show ?thesis by (simp only: simp_thms)
qed

theorem name_to_method_inserts_witness:
  "rk_string_to_method (init_tables example_catalogue) ''RADAU_IIA_53'' = None
   \<and> rk_string_to_method
       (snd (name_to_method (init_tables example_catalogue) ''RADAU_IIA_53''))
       ''RADAU_IIA_53'' = Some 0
   \<and> snd (name_to_method (init_tables example_catalogue) ''RADAU_IIA_53'')
       \<noteq> init_tables example_catalogue"
proof -
  have h: "rk_string_to_method (init_tables example_catalogue) ''RADAU_IIA_53'' = None"
    by (simp add: init_tables_def example_catalogue_def)
  from name_to_method_inserts [OF h]
  have a: "snd (name_to_method (init_tables example_catalogue) ''RADAU_IIA_53'') =
      (init_tables example_catalogue)
        \<lparr>rk_string_to_method :=
           (rk_string_to_method (init_tables example_catalogue))(''RADAU_IIA_53'' \<mapsto> 0)\<rparr>"
    and b: "snd (name_to_method (init_tables example_catalogue) ''RADAU_IIA_53'')
      \<noteq> init_tables example_catalogue"
    by blast+
  have "rk_string_to_method
      (snd (name_to_method (init_tables example_catalogue) ''RADAU_IIA_53''))
      ''RADAU_IIA_53'' = Some 0"
    unfolding a by simp
  with h b show ?thesis by blast
qed

end
